theory Spec2Isabelle
  imports Complex_Main "HOL-Library.Char_ord" "HOL-Library.List_Lexorder" "HOL-Library.Multiset"
begin

section \<open>Values of a parsed row\<close>

text \<open>
  A parsed CSV row is a JavaScript object from column names to values. A field that is
  absent or \<open>null\<close> is \<open>Null\<close> (the source tests both with \<open>== null\<close> and \<open>??\<close>);
  a field that is \<open>NaN\<close> or a string that is not a number is \<open>NaN\<close> (\<open>isNaN\<close> is true
  of both and every comparison with either is false); every other field is a number.
  Numbers are modelled as reals: the rounding of IEEE doubles and the two infinities are
  abstracted away.
\<close>

datatype cell = Null | NaN | Num real

type_synonym row = "string \<Rightarrow> cell"

text \<open>\<open>c ?? d\<close>: the right operand only when the left one is null or undefined.\<close>

fun nullish :: "cell \<Rightarrow> cell \<Rightarrow> cell" where
  "nullish Null d = d"
| "nullish c d = c"

text \<open>Comparison and arithmetic of two values already passed through \<open>?? 0\<close>.\<close>

fun js_le :: "cell \<Rightarrow> cell \<Rightarrow> bool" where
  "js_le (Num x) (Num y) = (x \<le> y)"
| "js_le a b = False"

fun js_lt :: "cell \<Rightarrow> cell \<Rightarrow> bool" where
  "js_lt (Num x) (Num y) = (x < y)"
| "js_lt a b = False"

definition js_ge :: "cell \<Rightarrow> cell \<Rightarrow> bool" where
  "js_ge a b = js_le b a"

definition js_gt :: "cell \<Rightarrow> cell \<Rightarrow> bool" where
  "js_gt a b = js_lt b a"

fun js_add :: "cell \<Rightarrow> cell \<Rightarrow> cell" where
  "js_add (Num x) (Num y) = Num (x + y)"
| "js_add a b = NaN"

fun js_sub :: "cell \<Rightarrow> cell \<Rightarrow> cell" where
  "js_sub (Num x) (Num y) = Num (x - y)"
| "js_sub a b = NaN"

section \<open>The rule-based regime labeler\<close>

text \<open>Regime ids: 0 Goldilocks, 1 Slowdown, 2 Stagflation, 3 Overheating.\<close>

record labeled =
  cells :: row
  regime :: nat

text \<open>The body of the \<open>map\<close> callback of \<open>labelRegimes\<close>: the regime of one row.\<close>

definition labelRegime :: "row \<Rightarrow> nat" where
  "labelRegime r =
     (let R_z = nullish (r ''spx_ret_3w_z'') (Num 0);
          V_z = nullish (r ''vix_z'') (Num 0);
          G_z = nullish (r ''pmi_z'') (Num 0);
          I_z = nullish (r ''breakeven10_z'') (Num 0);
          vol_stress = js_add (nullish (r ''vvix_z'') (Num 0)) (nullish (r ''rv_3w_z'') (Num 0));
          growth_momentum =
            js_sub (nullish (r ''ip_yoy_z'') (Num 0)) (nullish (r ''unemp_z'') (Num 0))
      in if js_le G_z (Num 0) \<and> js_ge I_z (Num 0.75) \<and> js_ge V_z (Num 0) then 2
         else if js_ge R_z (Num 0.5) \<and> js_le V_z (Num (-0.5)) \<and> js_lt vol_stress (Num (-0.3))
           then 3
         else if js_le R_z (Num (-0.5)) \<and> js_le G_z (Num 0) \<and> js_ge V_z (Num 0) then 1
         else if js_ge R_z (Num 0.5) \<and> js_le V_z (Num 0) \<and> js_ge G_z (Num 0)
                 \<and> js_ge I_z (Num (-0.5)) \<and> js_le I_z (Num 0.75)
           then 0
         else if js_gt R_z (Num 0) \<and> js_lt V_z (Num 0) \<and> js_gt growth_momentum (Num 0) then 0
         else if js_lt R_z (Num 0) \<and> js_gt V_z (Num 0) then 1
         else if js_gt I_z (Num 0.5) \<or> js_gt (nullish (r ''cpi_yoy_z'') (Num 0)) (Num 0.75)
           then 2
         else 3)"

definition labelRegimes :: "row list \<Rightarrow> labeled list" where
  "labelRegimes data = map (\<lambda>r. \<lparr>cells = r, regime = labelRegime r\<rparr>) data"

subsection \<open>The rule list of the specification\<close>

text \<open>
  The specification's reading of the labeler: the decision fields with nulls as 0, and an
  ordered list of (condition, regime) rules of which the first that matches wins; the
  last rule, the end of the fallback cascade, always matches.
\<close>

definition returns_z :: "row \<Rightarrow> cell" where
  "returns_z r = nullish (r ''spx_ret_3w_z'') (Num 0)"

definition volatility_z :: "row \<Rightarrow> cell" where
  "volatility_z r = nullish (r ''vix_z'') (Num 0)"

definition growth_z :: "row \<Rightarrow> cell" where
  "growth_z r = nullish (r ''pmi_z'') (Num 0)"

definition inflation_z :: "row \<Rightarrow> cell" where
  "inflation_z r = nullish (r ''breakeven10_z'') (Num 0)"

definition spec_stagflation :: "row \<Rightarrow> bool" where
  "spec_stagflation r =
     (js_le (growth_z r) (Num 0) \<and> js_ge (inflation_z r) (Num 0.75)
      \<and> js_ge (volatility_z r) (Num 0))"

definition spec_overheating :: "row \<Rightarrow> bool" where
  "spec_overheating r =
     (js_ge (returns_z r) (Num 0.5) \<and> js_le (volatility_z r) (Num (-0.5))
      \<and> js_lt (js_add (nullish (r ''vvix_z'') (Num 0)) (nullish (r ''rv_3w_z'') (Num 0)))
           (Num (-0.3)))"

definition spec_slowdown :: "row \<Rightarrow> bool" where
  "spec_slowdown r =
     (js_le (returns_z r) (Num (-0.5)) \<and> js_le (growth_z r) (Num 0)
      \<and> js_ge (volatility_z r) (Num 0))"

definition spec_goldilocks :: "row \<Rightarrow> bool" where
  "spec_goldilocks r =
     (js_ge (returns_z r) (Num 0.5) \<and> js_le (volatility_z r) (Num 0)
      \<and> js_ge (growth_z r) (Num 0)
      \<and> js_le (Num (-0.5)) (inflation_z r) \<and> js_le (inflation_z r) (Num 0.75))"

definition spec_fallback :: "row \<Rightarrow> nat" where
  "spec_fallback r =
     (if js_gt (returns_z r) (Num 0) \<and> js_lt (volatility_z r) (Num 0)
         \<and> js_gt (js_sub (nullish (r ''ip_yoy_z'') (Num 0)) (nullish (r ''unemp_z'') (Num 0)))
              (Num 0)
      then 0
      else if js_lt (returns_z r) (Num 0) \<and> js_gt (volatility_z r) (Num 0) then 1
      else if js_gt (inflation_z r) (Num 0.5)
              \<or> js_gt (nullish (r ''cpi_yoy_z'') (Num 0)) (Num 0.75)
      then 2
      else 3)"

definition spec_rules :: "((row \<Rightarrow> bool) \<times> nat) list" where
  "spec_rules =
     [(spec_stagflation, 2), (spec_overheating, 3), (spec_slowdown, 1), (spec_goldilocks, 0)]"

definition first_match :: "row \<Rightarrow> nat" where
  "first_match r =
     (case find (\<lambda>(p, k). p r) spec_rules of
        Some (p, k) \<Rightarrow> k
      | None \<Rightarrow> spec_fallback r)"

section \<open>Decision trees\<close>

text \<open>
  The trainer reads the target field of a row only as an index into a four-entry count
  array, and every row it is given comes from \<open>labelRegimes\<close>, whose ids are below 4.
  The tally below is the source's \<open>counts[d[target]]++\<close> for such ids; an id of 4 or more
  is outside the model and is not tallied.
\<close>

definition classCounts :: "labeled list \<Rightarrow> nat list" where
  "classCounts data =
     foldl (\<lambda>counts d. if regime d < 4 then counts[regime d := counts ! regime d + 1] else counts)
       [0, 0, 0, 0] data"

text \<open>\<open>counts.indexOf(v)\<close> for a value that occurs in the array: the first index holding it.\<close>

fun indexOf :: "nat list \<Rightarrow> nat \<Rightarrow> nat" where
  "indexOf [] v = 0"
| "indexOf (x # xs) v = (if x = v then 0 else Suc (indexOf xs v))"

text \<open>\<open>counts.indexOf(Math.max(...counts))\<close>: the majority class, the lowest id on a tie.\<close>

definition majority :: "labeled list \<Rightarrow> nat" where
  "majority data = (let counts = classCounts data in indexOf counts (fold max counts 0))"

definition calcGini :: "labeled list \<Rightarrow> real" where
  "calcGini data =
     foldl (\<lambda>gini c. if length data > 0 then gini - (real c / real (length data))\<^sup>2 else gini)
       1 (classCounts data)"

text \<open>
  A decision node. A leaf object carries \<open>prediction\<close>; an internal object carries
  \<open>feature\<close>, \<open>threshold\<close>, \<open>left\<close> and \<open>right\<close>. The predictor also reads \<open>prediction\<close> from
  an internal object, so the node has an optional one; the trainer never sets it.
\<close>

datatype tree = Leaf nat | Node "nat option" string real tree tree

text \<open>The numeric values of a column: those that pass \<open>v != null && !isNaN(v)\<close>.\<close>

fun numbers :: "cell list \<Rightarrow> real list" where
  "numbers [] = []"
| "numbers (Num x # cs) = x # numbers cs"
| "numbers (c # cs) = numbers cs"

text \<open>
  The two sides of a split. A row whose value is null, or for which the comparison is
  false on both sides (\<open>NaN\<close>), belongs to neither.
\<close>

definition leftRows :: "labeled list \<Rightarrow> string \<Rightarrow> real \<Rightarrow> labeled list" where
  "leftRows data feature threshold =
     filter (\<lambda>d. cells d feature \<noteq> Null \<and> js_le (cells d feature) (Num threshold)) data"

definition rightRows :: "labeled list \<Rightarrow> string \<Rightarrow> real \<Rightarrow> labeled list" where
  "rightRows data feature threshold =
     filter (\<lambda>d. cells d feature \<noteq> Null \<and> js_gt (cells d feature) (Num threshold)) data"

text \<open>
  The running best split: \<open>bestFeature\<close> (undefined when no feature was selected),
  \<open>bestThreshold\<close> and \<open>bestGini\<close>, where \<open>None\<close> is the initial \<open>Infinity\<close>.
\<close>

record best =
  bestFeature :: "string option"
  bestThreshold :: real
  bestGini :: "real option"

text \<open>The body of the loop over the cut points 0.25, 0.5, 0.75 of one feature.\<close>

definition tryCut :: "labeled list \<Rightarrow> string \<Rightarrow> real list \<Rightarrow> best \<Rightarrow> real \<Rightarrow> best" where
  "tryCut data feature values b pct =
     (let threshold = values ! nat \<lfloor>real (length values) * pct\<rfloor>;
          left = leftRows data feature threshold;
          right = rightRows data feature threshold
      in if length left < 5 \<or> length right < 5 then b
         else
           let gini = (real (length left) / real (length data)) * calcGini left
                    + (real (length right) / real (length data)) * calcGini right
           in if (case bestGini b of None \<Rightarrow> True | Some g \<Rightarrow> gini < g)
              then \<lparr>bestFeature = Some feature, bestThreshold = threshold, bestGini = Some gini\<rparr>
              else b)"

text \<open>The body of the loop over the selected features.\<close>

definition tryFeature :: "labeled list \<Rightarrow> best \<Rightarrow> string \<Rightarrow> best" where
  "tryFeature data b feature =
     (let values = sort (numbers (map (\<lambda>d. cells d feature) data))
      in if length values = 0 then b
         else foldl (tryCut data feature values) b [0.25, 0.5, 0.75])"

definition bestSplit :: "labeled list \<Rightarrow> string list \<Rightarrow> best" where
  "bestSplit data selected =
     foldl (tryFeature data)
       \<lparr>bestFeature = (case selected of [] \<Rightarrow> None | f # fs \<Rightarrow> Some f),
        bestThreshold = 0, bestGini = None\<rparr>
       selected"

definition numFeatures :: "string list \<Rightarrow> nat" where
  "numFeatures features = max 1 (nat \<lfloor>sqrt (real (length features))\<rfloor>)"

text \<open>
  The random draws. \<open>[...features].sort(() => 0.5 - Math.random())\<close> rearranges a copy of
  the feature list in an order that depends on the random numbers drawn; the order it
  produces at the node reached from the root by the path \<open>p\<close> (\<open>False\<close> left, \<open>True\<close> right)
  is \<open>rnd p features\<close>, a parameter of the model.
\<close>

type_synonym shuffle = "bool list \<Rightarrow> string list \<Rightarrow> string list"

definition selectFeatures :: "shuffle \<Rightarrow> bool list \<Rightarrow> string list \<Rightarrow> string list" where
  "selectFeatures rnd p features = take (numFeatures features) (rnd p features)"

text \<open>
  The trainer; the target field is the \<open>regime\<close> of the row, \<open>depth\<close> and \<open>maxDepth\<close> are
  integers (the forest trainer passes 0 and 12, every recursive call \<open>depth + 1\<close>). With no selected feature \<open>bestFeature\<close> is undefined, \<open>d[undefined]\<close> is
  undefined for every row, both sides are empty and the result is a leaf.
\<close>

function trainDecisionTree ::
  "shuffle \<Rightarrow> bool list \<Rightarrow> labeled list \<Rightarrow> string list \<Rightarrow> int \<Rightarrow> int \<Rightarrow> tree" where
  "trainDecisionTree rnd p data features depth maxDepth =
     (if depth \<ge> maxDepth \<or> length data < 15 then Leaf (majority data)
      else
        let b = bestSplit data (selectFeatures rnd p features)
        in case bestFeature b of
             None \<Rightarrow> Leaf (majority data)
           | Some feature \<Rightarrow>
               let left = leftRows data feature (bestThreshold b);
                   right = rightRows data feature (bestThreshold b)
               in if length left = 0 \<or> length right = 0 then Leaf (majority data)
                  else Node None feature (bestThreshold b)
                         (trainDecisionTree rnd (p @ [False]) left features (depth + 1) maxDepth)
                         (trainDecisionTree rnd (p @ [True]) right features (depth + 1) maxDepth))"
  by pat_completeness auto
termination
  by (relation "measure (\<lambda>(rnd, p, data, features, depth, maxDepth). nat (maxDepth - depth))")
    auto

declare trainDecisionTree.simps [simp del]

text \<open>
  \<open>trainRandomForest\<close>: each tree is trained from depth 0 with \<open>maxDepth\<close> 12 on a bootstrap
  sample of \<open>data.length\<close> rows \<open>data[Math.floor(Math.random() * data.length)]\<close>. The
  random numbers are parameters: \<open>idx i j\<close> gives the index of draw \<open>j\<close> for tree \<open>i\<close>
  (reduced below \<open>data.length\<close>, where the source's index always lies) and \<open>rnd i\<close> the
  shuffles of tree \<open>i\<close>.
\<close>

definition bootstrap :: "(nat \<Rightarrow> nat) \<Rightarrow> labeled list \<Rightarrow> labeled list" where
  "bootstrap idx data = map (\<lambda>j. data ! (idx j mod length data)) [0..<length data]"

definition trainRandomForest ::
  "(nat \<Rightarrow> shuffle) \<Rightarrow> (nat \<Rightarrow> nat \<Rightarrow> nat) \<Rightarrow> labeled list \<Rightarrow> string list \<Rightarrow> nat \<Rightarrow> tree list" where
  "trainRandomForest rnd idx data features numTrees =
     map (\<lambda>i. trainDecisionTree (rnd i) [] (bootstrap (idx i) data) features 0 12) [0..<numTrees]"

text \<open>
  Prediction. A value that is null or for which \<open>isNaN\<close> holds stops the walk with
  \<open>tree.prediction ?? 0\<close>.
\<close>

fun predictTree :: "tree \<Rightarrow> row \<Rightarrow> nat" where
  "predictTree (Leaf prediction) sample = prediction"
| "predictTree (Node prediction feature threshold left right) sample =
     (case sample feature of
        Num val \<Rightarrow>
          if val \<le> threshold then predictTree left sample else predictTree right sample
      | _ \<Rightarrow> (case prediction of None \<Rightarrow> 0 | Some c \<Rightarrow> c))"

text \<open>
  The forest's vote. As for \<open>classCounts\<close>, a class of 4 or more is outside the model and
  not tallied. Dividing the zero counts of an empty forest by its length gives \<open>NaN\<close>.
\<close>

definition votes :: "tree list \<Rightarrow> row \<Rightarrow> nat list" where
  "votes trees sample =
     foldl (\<lambda>probs tree. let cls = predictTree tree sample
                          in if cls < 4 then probs[cls := probs ! cls + 1] else probs)
       [0, 0, 0, 0] trees"

definition predictRF :: "tree list \<Rightarrow> row \<Rightarrow> cell list" where
  "predictRF trees sample =
     map (\<lambda>p. if length trees = 0 then NaN else Num (real p / real (length trees)))
       (votes trees sample)"

text \<open>The largest number of internal nodes on a path from the root to a leaf.\<close>

fun pathNodes :: "tree \<Rightarrow> nat" where
  "pathNodes (Leaf c) = 0"
| "pathNodes (Node pr f t l r) = Suc (max (pathNodes l) (pathNodes r))"

subsection \<open>Concrete training sets\<close>

text \<open>The shuffle that leaves the feature list in its order.\<close>

definition keepOrder :: shuffle where
  "keepOrder p features = features"

text \<open>A labelled row with the single feature \<open>f\<close>.\<close>

definition mkRow :: "real \<Rightarrow> nat \<Rightarrow> labeled" where
  "mkRow v k = \<lparr>cells = (\<lambda>f. if f = ''f'' then Num v else Null), regime = k\<rparr>"

text \<open>Fifteen Slowdown rows whose feature takes the values 1 to 15.\<close>

definition demo_rows :: "labeled list" where
  "demo_rows = map (\<lambda>v. mkRow v 1) [1, 2, 3, 4, 5, 6, 7, 8, 9, 10, 11, 12, 13, 14, 15]"

text \<open>Fifteen Slowdown rows: one with the feature at -1, fourteen with it at 1.\<close>

definition skew_rows :: "labeled list" where
  "skew_rows = mkRow (- 1) 1 # map (\<lambda>v. mkRow v 1) [1, 1, 1, 1, 1, 1, 1, 1, 1, 1, 1, 1, 1, 1]"

subsection \<open>The fixed features and well-formed trees\<close>

text \<open>The 21 feature names of \<open>expectedFeatures\<close>.\<close>

definition expectedFeatures :: "string list" where
  "expectedFeatures =
     [''spx_ret_1w_z'', ''spx_ret_3w_z'', ''spx_ret_6w_z'', ''vix_z'', ''rv_3w_z'', ''vix_ts_z'',
      ''vvix_z'', ''hy_ret_3w_z'', ''slope_2s10s_z'', ''pmi_z'', ''pmi_chg_3w_z'',
      ''breakeven10_z'', ''breakeven_chg_3w_z'', ''cpi_yoy_z'', ''ip_yoy_z'', ''unemp_z'',
      ''aaii_spread_z'', ''cg_ratio_z'', ''oil_ret_3w_z'', ''gold_ret_3w_z'', ''capex_ret_6w_z'']"

text \<open>A tree all of whose predictions are regime ids.\<close>

fun wf_tree :: "tree \<Rightarrow> bool" where
  "wf_tree (Leaf c) = (c < 4)"
| "wf_tree (Node pr f t l r) =
     ((case pr of None \<Rightarrow> True | Some c \<Rightarrow> c < 4) \<and> wf_tree l \<and> wf_tree r)"

text \<open>The number of trees of a forest that predict class \<open>c\<close> for a row.\<close>

definition voteCount :: "tree list \<Rightarrow> row \<Rightarrow> nat \<Rightarrow> nat" where
  "voteCount trees sample c = length (filter (\<lambda>t. predictTree t sample = c) trees)"

section \<open>The backtest engine\<close>

text \<open>
  The three tables \<open>runBacktest\<close> reads. A macro row carries the key the source computes as
  \<open>row._dateKey ?? normDate(row[dateColumn])\<close> and the regime its labeler gave it; a sector
  row carries its key and its returns; a stock row carries its key, ticker, sector and
  return. A key that is null or empty is the empty string: the source skips both with
  \<open>!key\<close>. Returns are reals, so \<open>isFinite\<close> holds of each.
\<close>

record macroRow =
  dateKey :: string
  regimeId :: nat

record sectorRow =
  sectorDateKey :: string
  returns :: "string \<rightharpoonup> real"

record stockRow =
  stockDateKey :: string
  stock_ticker :: string
  sector_etf :: string
  ret :: real

text \<open>The static table of long and short sectors of each regime.\<close>

record config =
  long :: "string list"
  short :: "string list"

definition regimeSectorConfig :: "nat \<Rightarrow> config option" where
  "regimeSectorConfig k =
     (if k = 0 then
        Some \<lparr>long = [''XLY US Equity'', ''XLK US Equity'', ''XLF US Equity''],
              short = [''XLU US Equity'', ''XLP US Equity'']\<rparr>
      else if k = 1 then
        Some \<lparr>long = [''XLP US Equity'', ''XLU US Equity'', ''XLV US Equity''],
              short = [''XLY US Equity'', ''XLF US Equity'', ''XLI US Equity'']\<rparr>
      else if k = 2 then
        Some \<lparr>long = [''XLE US Equity'', ''XLB US Equity''],
              short = [''XLF US Equity'', ''XLK US Equity'', ''XLY US Equity'']\<rparr>
      else if k = 3 then
        Some \<lparr>long = [''XLF US Equity'', ''XLI US Equity'', ''XLV US Equity''],
              short = [''XLU US Equity'', ''XLP US Equity'']\<rparr>
      else None)"

text \<open>The lookup objects built before the loop; a later row overwrites an earlier one.\<close>

definition regimeByDate :: "macroRow list \<Rightarrow> string \<rightharpoonup> nat" where
  "regimeByDate processedData =
     foldl (\<lambda>m row. if dateKey row = [] then m else m(dateKey row \<mapsto> regimeId row))
       Map.empty processedData"

definition stocksByDate :: "stockRow list \<Rightarrow> string \<Rightarrow> stockRow list" where
  "stocksByDate stockData d =
     (if d = [] then [] else filter (\<lambda>row. stockDateKey row = d) stockData)"

definition stockRetByDate :: "stockRow list \<Rightarrow> string \<Rightarrow> string \<rightharpoonup> real" where
  "stockRetByDate stockData d =
     foldl (\<lambda>m r. if stock_ticker r \<noteq> [] then m(stock_ticker r \<mapsto> ret r) else m)
       Map.empty (stocksByDate stockData d)"

text \<open>
  The common dates: the keys of \<open>regimeByDate\<close> that are also keys of \<open>sectorByDate\<close> and of
  \<open>stocksByDate\<close>, sorted as strings.
\<close>

definition allDates :: "macroRow list \<Rightarrow> sectorRow list \<Rightarrow> stockRow list \<Rightarrow> string list" where
  "allDates processedData sectorData stockData =
     sort (filter (\<lambda>d. d \<in> set (map sectorDateKey sectorData)
                        \<and> d \<in> set (map stockDateKey stockData))
            (remdups (filter (\<lambda>d. d \<noteq> []) (map dateKey processedData))))"

text \<open>
  \<open>new Date(tradeDate) < cutoff\<close> with the cutoff 2015-01-01. The keys are the calendar
  days \<open>YYYY-MM-DD\<close> that \<open>normDate\<close> produces, for which the order of the dates is the
  order of the strings.
\<close>

definition beforeCutoff :: "string \<Rightarrow> bool" where
  "beforeCutoff tradeDate = (tradeDate < ''2015-01-01'')"

definition initialCapital :: real where
  "initialCapital = 1000000"

record candidate =
  ticker :: string
  sector :: string
  stockRet :: real

record position = candidate +
  weight :: real
  pnl :: real

record tradeRecord =
  tradeDay :: string
  tradeRegime :: nat
  weeklyRet :: real
  longs :: "position list"
  shorts :: "position list"

record point =
  pointDate :: string
  pointEquity :: real
  pointRet :: real

text \<open>The variables the loop updates.\<close>

record backtest =
  equity :: real
  equityCurve :: "point list"
  weeklyReturns :: "real list"
  tradesByDate :: "string \<rightharpoonup> tradeRecord"

text \<open>
  The candidates of one sector: its stocks of the rank date, stably sorted by \<open>key\<close> (the
  negated return for the long side, the return for the short side), the first five, of
  which those with a return on the trade date are kept.
\<close>

definition sectorCandidates ::
  "(stockRow \<Rightarrow> real) \<Rightarrow> stockRow list \<Rightarrow> (string \<rightharpoonup> real) \<Rightarrow> string \<Rightarrow> candidate list" where
  "sectorCandidates key rankStocks todayRets sec =
     (let sorted = take 5 (sort_key key (filter (\<lambda>s. sector_etf s = sec) rankStocks))
      in concat (map (\<lambda>s. case todayRets (stock_ticker s) of
                             None \<Rightarrow> []
                           | Some rToday \<Rightarrow>
                               [\<lparr>ticker = stock_ticker s, sector = sector_etf s, stockRet = rToday\<rparr>])
                   sorted))"

definition longCandidates :: "config \<Rightarrow> stockRow list \<Rightarrow> (string \<rightharpoonup> real) \<Rightarrow> candidate list" where
  "longCandidates cfg rankStocks todayRets =
     concat (map (sectorCandidates (\<lambda>s. - ret s) rankStocks todayRets) (long cfg))"

definition shortCandidates :: "config \<Rightarrow> stockRow list \<Rightarrow> (string \<rightharpoonup> real) \<Rightarrow> candidate list" where
  "shortCandidates cfg rankStocks todayRets =
     concat (map (sectorCandidates (\<lambda>s. ret s) rankStocks todayRets) (short cfg))"

definition longWeight :: "nat \<Rightarrow> real" where
  "longWeight nL = (if nL > 0 then 0.5 / real nL else 0)"

definition shortWeight :: "nat \<Rightarrow> real" where
  "shortWeight nS = (if nS > 0 then 0.5 / real nS else 0)"

definition longPositions :: "real \<Rightarrow> candidate list \<Rightarrow> position list" where
  "longPositions lw cs =
     map (\<lambda>c. \<lparr>ticker = ticker c, sector = sector c, stockRet = stockRet c,
                weight = lw, pnl = lw * stockRet c\<rparr>) cs"

definition shortPositions :: "real \<Rightarrow> candidate list \<Rightarrow> position list" where
  "shortPositions sw cs =
     map (\<lambda>c. \<lparr>ticker = ticker c, sector = sector c, stockRet = stockRet c,
                weight = - sw, pnl = (- sw) * stockRet c\<rparr>) cs"

text \<open>A week recorded with return 0: the equity is pushed unchanged, no trade is stored.\<close>

definition zeroWeek :: "backtest \<Rightarrow> string \<Rightarrow> backtest" where
  "zeroWeek st tradeDate =
     st\<lparr>weeklyReturns := weeklyReturns st @ [0],
        equityCurve := equityCurve st
          @ [\<lparr>pointDate = tradeDate, pointEquity = equity st, pointRet = 0\<rparr>]\<rparr>"

text \<open>
  The body of the loop for \<open>rankDate = allDates[i - 1]\<close> and \<open>tradeDate = allDates[i]\<close>.
  \<open>weeklyRet\<close> adds the P&L of the long positions, then of the short ones.
\<close>

definition week :: "macroRow list \<Rightarrow> stockRow list \<Rightarrow> backtest \<Rightarrow> string \<times> string \<Rightarrow> backtest" where
  "week processedData stockData st w =
     (let rankDate = fst w; tradeDate = snd w
      in if beforeCutoff tradeDate then st
         else
           case regimeByDate processedData tradeDate of
             None \<Rightarrow> zeroWeek st tradeDate
           | Some rg \<Rightarrow>
               (case regimeSectorConfig rg of
                  None \<Rightarrow> zeroWeek st tradeDate
                | Some cfg \<Rightarrow>
                    let rankStocks = stocksByDate stockData rankDate;
                        todayRets = stockRetByDate stockData tradeDate;
                        lc = longCandidates cfg rankStocks todayRets;
                        sc = shortCandidates cfg rankStocks todayRets;
                        nL = length lc;
                        nS = length sc
                    in if nL + nS = 0 then zeroWeek st tradeDate
                       else
                         let ls = longPositions (longWeight nL) lc;
                             ss = shortPositions (shortWeight nS) sc;
                             wr = foldl (\<lambda>acc p. acc + pnl p) 0 (ls @ ss);
                             eq = equity st * (1 + wr)
                         in \<lparr>equity = eq,
                             equityCurve = equityCurve st
                               @ [\<lparr>pointDate = tradeDate, pointEquity = eq, pointRet = wr\<rparr>],
                             weeklyReturns = weeklyReturns st @ [wr],
                             tradesByDate = (tradesByDate st)(tradeDate \<mapsto>
                               \<lparr>tradeDay = tradeDate, tradeRegime = rg, weeklyRet = wr,
                                longs = ls, shorts = ss\<rparr>)\<rparr>))"

definition initialState :: backtest where
  "initialState =
     \<lparr>equity = initialCapital, equityCurve = [], weeklyReturns = [], tradesByDate = Map.empty\<rparr>"

text \<open>
  The loop \<open>for (let i = 1; i < allDates.length; i++)\<close>, over the list of the pairs
  \<open>(allDates[i - 1], allDates[i])\<close>.
\<close>

definition runWeeks :: "macroRow list \<Rightarrow> stockRow list \<Rightarrow> (string \<times> string) list \<Rightarrow> backtest" where
  "runWeeks processedData stockData ws = foldl (week processedData stockData) initialState ws"

text \<open>
  \<open>runBacktest\<close> with the three tables present. The two alerts followed by
  \<open>setBacktest(null)\<close> are the two failures; otherwise the curve, the trades and the final
  equity are the result. The statistics computed from the finished curve (CAGR,
  volatility, Sharpe ratio, drawdown, win rate, yearly returns) are not modelled.
\<close>

datatype failure = NoOverlappingDates | NoValidWeeks

definition runBacktest ::
  "macroRow list \<Rightarrow> sectorRow list \<Rightarrow> stockRow list \<Rightarrow> failure + backtest" where
  "runBacktest processedData sectorData stockData =
     (let dates = allDates processedData sectorData stockData
      in if length dates < 2 then Inl NoOverlappingDates
         else
           let st = runWeeks processedData stockData (zip dates (tl dates))
           in if length (equityCurve st) = 0 then Inl NoValidWeeks else Inr st)"

subsection \<open>Derived descriptions of a week and of the curve\<close>

text \<open>
  The trade record the loop body stores for a week that is not skipped by the cutoff, and
  \<open>None\<close> where it records a zero-return week instead (no configuration for the regime,
  or no candidate on either side).
\<close>

definition weekTrade :: "macroRow list \<Rightarrow> stockRow list \<Rightarrow> string \<times> string \<Rightarrow> tradeRecord option" where
  "weekTrade processedData stockData w =
     (case regimeByDate processedData (snd w) of
        None \<Rightarrow> None
      | Some rg \<Rightarrow>
          (case regimeSectorConfig rg of
             None \<Rightarrow> None
           | Some cfg \<Rightarrow>
               let lc = longCandidates cfg (stocksByDate stockData (fst w))
                          (stockRetByDate stockData (snd w));
                   sc = shortCandidates cfg (stocksByDate stockData (fst w))
                          (stockRetByDate stockData (snd w));
                   ls = longPositions (longWeight (length lc)) lc;
                   ss = shortPositions (shortWeight (length sc)) sc
               in if length lc + length sc = 0 then None
                  else Some \<lparr>tradeDay = snd w, tradeRegime = rg,
                              weeklyRet = foldl (\<lambda>acc p. acc + pnl p) 0 (ls @ ss),
                              longs = ls, shorts = ss\<rparr>))"

text \<open>The return the loop body records for such a week.\<close>

definition weekRet :: "macroRow list \<Rightarrow> stockRow list \<Rightarrow> string \<times> string \<Rightarrow> real" where
  "weekRet m k w = (case weekTrade m k w of None \<Rightarrow> 0 | Some t \<Rightarrow> weeklyRet t)"

text \<open>A curve that compounds from the equity \<open>e\<close>: each point's equity is the previous
  equity times one plus the point's return.\<close>

fun compounds :: "real \<Rightarrow> point list \<Rightarrow> bool" where
  "compounds e [] = True"
| "compounds e (pt # pts) = (pointEquity pt = e * (1 + pointRet pt) \<and> compounds (pointEquity pt) pts)"

definition lastEquity :: "real \<Rightarrow> point list \<Rightarrow> real" where
  "lastEquity e curve = (if curve = [] then e else pointEquity (last curve))"

text \<open>The non-empty date keys present in all three tables.\<close>

definition sharedDates :: "macroRow list \<Rightarrow> sectorRow list \<Rightarrow> stockRow list \<Rightarrow> string set" where
  "sharedDates processedData sectorData stockData =
     (dateKey ` set processedData \<inter> sectorDateKey ` set sectorData
        \<inter> stockDateKey ` set stockData) - {[]}"

subsection \<open>Concrete tables\<close>

text \<open>
  Three weekly dates. In the week of 2015-01-09 (Stagflation) two energy stocks are held
  long and one financial stock short; in the week of 2015-01-16 (Goldilocks) the only
  ranked stock of a configured sector has no return on the trade date.
\<close>

definition demo_macro :: "macroRow list" where
  "demo_macro =
     [\<lparr>dateKey = ''2015-01-02'', regimeId = 2\<rparr>,
      \<lparr>dateKey = ''2015-01-09'', regimeId = 2\<rparr>,
      \<lparr>dateKey = ''2015-01-16'', regimeId = 0\<rparr>]"

definition demo_sector :: "sectorRow list" where
  "demo_sector =
     [\<lparr>sectorDateKey = ''2015-01-02'', returns = Map.empty\<rparr>,
      \<lparr>sectorDateKey = ''2015-01-09'', returns = Map.empty\<rparr>,
      \<lparr>sectorDateKey = ''2015-01-16'', returns = Map.empty\<rparr>]"

definition demo_stock :: "stockRow list" where
  "demo_stock =
     [\<lparr>stockDateKey = ''2015-01-02'', stock_ticker = ''A'', sector_etf = ''XLE US Equity'', ret = 0.03\<rparr>,
      \<lparr>stockDateKey = ''2015-01-02'', stock_ticker = ''B'', sector_etf = ''XLE US Equity'', ret = 0.01\<rparr>,
      \<lparr>stockDateKey = ''2015-01-02'', stock_ticker = ''C'', sector_etf = ''XLF US Equity'', ret = - 0.02\<rparr>,
      \<lparr>stockDateKey = ''2015-01-09'', stock_ticker = ''A'', sector_etf = ''XLE US Equity'', ret = 0.05\<rparr>,
      \<lparr>stockDateKey = ''2015-01-09'', stock_ticker = ''B'', sector_etf = ''XLE US Equity'', ret = - 0.02\<rparr>,
      \<lparr>stockDateKey = ''2015-01-09'', stock_ticker = ''C'', sector_etf = ''XLF US Equity'', ret = 0.01\<rparr>,
      \<lparr>stockDateKey = ''2015-01-16'', stock_ticker = ''A'', sector_etf = ''XLE US Equity'', ret = 0.01\<rparr>]"

text \<open>Stock rows that share a single date with the other two tables.\<close>

definition lone_stock :: "stockRow list" where
  "lone_stock =
     [\<lparr>stockDateKey = ''2015-01-09'', stock_ticker = ''A'', sector_etf = ''XLE US Equity'', ret = 0.05\<rparr>,
      \<lparr>stockDateKey = ''2016-03-04'', stock_ticker = ''A'', sector_etf = ''XLE US Equity'', ret = 0.01\<rparr>]"

definition demo_result :: backtest where
  "demo_result =
     runWeeks demo_macro demo_stock
       (zip (allDates demo_macro demo_sector demo_stock)
            (tl (allDates demo_macro demo_sector demo_stock)))"

definition demo_trade :: tradeRecord where
  "demo_trade =
     \<lparr>tradeDay = ''2015-01-09'', tradeRegime = 2, weeklyRet = 0.0025,
      longs = [\<lparr>ticker = ''A'', sector = ''XLE US Equity'', stockRet = 0.05, weight = 0.25,
                 pnl = 0.0125\<rparr>,
               \<lparr>ticker = ''B'', sector = ''XLE US Equity'', stockRet = - 0.02, weight = 0.25,
                 pnl = - 0.005\<rparr>],
      shorts = [\<lparr>ticker = ''C'', sector = ''XLF US Equity'', stockRet = 0.01, weight = - 0.5,
                  pnl = - 0.005\<rparr>]\<rparr>"

section \<open>Properties of the labeler\<close>

lemma labelRegime_range: "labelRegime r < 4"
  by (simp add: labelRegime_def Let_def)

text \<open>A row with returns 1, volatility -1, growth 1 and inflation 0 is Goldilocks.\<close>

lemma labelRegime_goldilocks_row:
  "labelRegime (\<lambda>f. if f = ''spx_ret_3w_z'' then Num 1 else if f = ''vix_z'' then Num (- 1)
      else if f = ''pmi_z'' then Num 1 else if f = ''breakeven10_z'' then Num 0 else Null) = 0"
  by (simp add: labelRegime_def Let_def js_ge_def js_gt_def)

text \<open>
  A row on the boundary of both the Stagflation and the Slowdown rule (returns -0.5,
  growth 0, volatility 0, inflation 0.75) is Stagflation, the earlier rule; just below
  the inflation threshold it is Slowdown.
\<close>

lemma labelRegime_precedence:
  "labelRegime (\<lambda>f. if f = ''spx_ret_3w_z'' then Num (- 0.5)
      else if f = ''breakeven10_z'' then Num 0.75 else Null) = 2"
  "labelRegime (\<lambda>f. if f = ''spx_ret_3w_z'' then Num (- 0.5)
      else if f = ''breakeven10_z'' then Num 0.74 else Null) = 1"
  by (simp_all add: labelRegime_def Let_def js_ge_def js_gt_def)

lemma labelRegime_first_match: "labelRegime r = first_match r"
  by (simp add: labelRegime_def first_match_def spec_rules_def spec_stagflation_def
      spec_overheating_def spec_slowdown_def spec_goldilocks_def spec_fallback_def
      returns_z_def volatility_z_def growth_z_def inflation_z_def js_ge_def Let_def)

text \<open>
  Claim C4. The labeler is a total function of the row alone; its result is one of the
  regime ids 0, 1, 2, 3, and it is the regime of the first rule of the ordered list
  Stagflation, Overheating, Slowdown, Goldilocks that matches, the fallback cascade
  deciding when none does.
\<close>

theorem labelRegime_total_ordered:
  "labelRegime r \<in> {0, 1, 2, 3} \<and> labelRegime r = first_match r
   \<and> map regime (labelRegimes rs) = map first_match rs"
proof -
  have "labelRegime r < 4" by (rule labelRegime_range)
  then have "labelRegime r \<in> {0, 1, 2, 3}" by auto
  moreover have "map regime (labelRegimes rs) = map first_match rs"
    by (simp add: labelRegimes_def labelRegime_first_match comp_def)
  ultimately show ?thesis using labelRegime_first_match by simp
qed

section \<open>Properties of the tree trainer\<close>

subsection \<open>The trainer on the concrete training sets\<close>

lemma select_single: "selectFeatures keepOrder p [''f''] = [''f'']"
  by (simp add: selectFeatures_def keepOrder_def numFeatures_def)

lemma majority_demo: "majority demo_rows = 1"
  by (simp add: majority_def classCounts_def demo_rows_def mkRow_def)

lemma bestSplit_demo:
  "bestSplit demo_rows [''f''] =
     \<lparr>bestFeature = Some ''f'', bestThreshold = 8, bestGini = Some 0\<rparr>"
  by (simp add: bestSplit_def tryFeature_def tryCut_def Let_def leftRows_def rightRows_def
      js_gt_def calcGini_def classCounts_def demo_rows_def mkRow_def)

lemma leftRows_demo: "leftRows demo_rows ''f'' 8 = map (\<lambda>v. mkRow v 1) [1, 2, 3, 4, 5, 6, 7, 8]"
  by (simp add: leftRows_def demo_rows_def mkRow_def)

lemma rightRows_demo:
  "rightRows demo_rows ''f'' 8 = map (\<lambda>v. mkRow v 1) [9, 10, 11, 12, 13, 14, 15]"
  by (simp add: rightRows_def js_gt_def demo_rows_def mkRow_def)

lemma train_demo:
  "depth < maxDepth \<Longrightarrow>
   trainDecisionTree keepOrder p demo_rows [''f''] depth maxDepth
     = Node None ''f'' 8 (Leaf 1) (Leaf 1)"
  apply (subst trainDecisionTree.simps)
  apply (simp add: select_single bestSplit_demo leftRows_demo rightRows_demo)
  apply (simp add: demo_rows_def)
  apply (subst trainDecisionTree.simps, simp add: majority_def classCounts_def mkRow_def)
  apply (subst trainDecisionTree.simps, simp add: majority_def classCounts_def mkRow_def)
  done

lemma bestSplit_skew:
  "bestSplit skew_rows [''f''] =
     \<lparr>bestFeature = Some ''f'', bestThreshold = 0, bestGini = None\<rparr>"
  by (simp add: bestSplit_def tryFeature_def tryCut_def Let_def leftRows_def rightRows_def
      js_gt_def calcGini_def classCounts_def skew_rows_def mkRow_def)

lemma leftRows_skew: "leftRows skew_rows ''f'' 0 = [mkRow (- 1) 1]"
  by (simp add: leftRows_def skew_rows_def mkRow_def)

lemma rightRows_skew:
  "rightRows skew_rows ''f'' 0 = map (\<lambda>v. mkRow v 1) [1, 1, 1, 1, 1, 1, 1, 1, 1, 1, 1, 1, 1, 1]"
  by (simp add: rightRows_def js_gt_def skew_rows_def mkRow_def)

lemma train_skew:
  "depth < maxDepth \<Longrightarrow>
   trainDecisionTree keepOrder p skew_rows [''f''] depth maxDepth
     = Node None ''f'' 0 (Leaf 1) (Leaf 1)"
  apply (subst trainDecisionTree.simps)
  apply (simp add: select_single bestSplit_skew leftRows_skew rightRows_skew)
  apply (simp add: skew_rows_def)
  apply (subst trainDecisionTree.simps, simp add: majority_def classCounts_def mkRow_def)
  apply (subst trainDecisionTree.simps, simp add: majority_def classCounts_def mkRow_def)
  done

subsection \<open>Missing values at prediction time\<close>

lemma predictTree_missing:
  "sample feature = Null \<or> sample feature = NaN \<Longrightarrow>
   predictTree (Node None feature threshold left right) sample = 0"
  by auto

text \<open>
  Claim C1. The claim asks that a row whose split feature is missing at an internal node
  gets the majority class of the rows the node was built from. The trainer stores no
  prediction in an internal node, so the predictor's \<open>tree.prediction ?? 0\<close> is 0: for the
  tree built from fifteen Slowdown rows (majority class 1, no Goldilocks row at all) a row
  without the feature is predicted Goldilocks.
\<close>

theorem predictTree_missing_feature_zero:
  "trainDecisionTree keepOrder [] demo_rows [''f''] 0 12 = Node None ''f'' 8 (Leaf 1) (Leaf 1)
   \<and> majority demo_rows = 1
   \<and> predictTree (trainDecisionTree keepOrder [] demo_rows [''f''] 0 12) (\<lambda>f. Null) = 0"
proof -
  have t: "trainDecisionTree keepOrder [] demo_rows [''f''] 0 12
             = Node None ''f'' 8 (Leaf 1) (Leaf 1)"
    by (rule train_demo) simp
  show ?thesis unfolding t by (simp add: majority_demo)
qed

subsection \<open>Splits that no candidate supports\<close>

text \<open>
  Claim C2. The claim asks for a leaf whenever every candidate cut is rejected, and for
  at least 5 rows on each side of every internal node. On the skewed rows all three cuts
  are rejected (\<open>bestGini\<close> is still the initial infinity), yet the initial
  \<open>bestFeature = selected[0]\<close>, \<open>bestThreshold = 0\<close> is committed: the trainer returns an
  internal node whose left side holds a single row.
\<close>

theorem trainDecisionTree_default_split:
  "bestGini (bestSplit skew_rows (selectFeatures keepOrder [] [''f''])) = None
   \<and> trainDecisionTree keepOrder [] skew_rows [''f''] 0 12 = Node None ''f'' 0 (Leaf 1) (Leaf 1)
   \<and> length (leftRows skew_rows ''f'' 0) = 1
   \<and> length (rightRows skew_rows ''f'' 0) = 14"
proof -
  have t: "trainDecisionTree keepOrder [] skew_rows [''f''] 0 12
             = Node None ''f'' 0 (Leaf 1) (Leaf 1)"
    by (rule train_skew) simp
  show ?thesis unfolding t
    by (simp add: select_single bestSplit_skew leftRows_skew rightRows_skew)
qed

subsection \<open>Termination and depth\<close>

lemma pathNodes_bound:
  "pathNodes (trainDecisionTree rnd p data features depth maxDepth) \<le> nat (maxDepth - depth)"
proof (induction rnd p data features depth maxDepth rule: trainDecisionTree.induct)
  case (1 rnd p data features depth maxDepth)
  let ?b = "bestSplit data (selectFeatures rnd p features)"
  show ?case
  proof (cases "depth \<ge> maxDepth \<or> length data < 15")
    case True
    then show ?thesis by (subst trainDecisionTree.simps) simp
  next
    case stop: False
    show ?thesis
    proof (cases "bestFeature ?b")
      case None
      with stop show ?thesis by (subst trainDecisionTree.simps) simp
    next
      case (Some feature)
      let ?left = "leftRows data feature (bestThreshold ?b)"
      let ?right = "rightRows data feature (bestThreshold ?b)"
      show ?thesis
      proof (cases "length ?left = 0 \<or> length ?right = 0")
        case True
        with stop Some show ?thesis by (subst trainDecisionTree.simps) (simp add: Let_def)
      next
        case False
        have l: "pathNodes (trainDecisionTree rnd (p @ [False]) ?left features (depth + 1) maxDepth)
                   \<le> nat (maxDepth - (depth + 1))"
          using "1.IH"(1) [OF stop refl Some refl refl False] .
        have r: "pathNodes (trainDecisionTree rnd (p @ [True]) ?right features (depth + 1) maxDepth)
                   \<le> nat (maxDepth - (depth + 1))"
          using "1.IH"(2) [OF stop refl Some refl refl False] .
        have "depth < maxDepth" using stop by simp
        then have "Suc (nat (maxDepth - (depth + 1))) \<le> nat (maxDepth - depth)" by linarith
        with l r have "Suc (max
            (pathNodes (trainDecisionTree rnd (p @ [False]) ?left features (depth + 1) maxDepth))
            (pathNodes (trainDecisionTree rnd (p @ [True]) ?right features (depth + 1) maxDepth)))
            \<le> nat (maxDepth - depth)"
          by simp
        with stop Some False show ?thesis
          by (subst trainDecisionTree.simps) (simp add: Let_def)
      qed
    qed
  qed
qed

lemma train_at_maxDepth:
  "maxDepth \<le> depth \<Longrightarrow>
   trainDecisionTree rnd p data features depth maxDepth = Leaf (majority data)"
  by (subst trainDecisionTree.simps) simp

text \<open>
  Claim C10. The trainer is a total function: its recursion is accepted with the measure
  \<open>maxDepth - depth\<close>, which every recursive call decreases by passing \<open>depth + 1\<close>. At
  any depth \<open>maxDepth + k\<close>, that is whenever \<open>depth \<ge> maxDepth\<close>, it returns a leaf. A path
  of the returned tree holds at most \<open>maxDepth - depth\<close> internal nodes, so from every
  starting depth \<open>d\<close> (a depth is a count of levels, 0 at the root) at most \<open>maxDepth\<close>.
\<close>

theorem trainDecisionTree_depth_bound:
  "pathNodes (trainDecisionTree rnd p data features depth maxDepth) \<le> nat (maxDepth - depth)
   \<and> trainDecisionTree rnd p data features (maxDepth + int k) maxDepth = Leaf (majority data)
   \<and> pathNodes (trainDecisionTree rnd p data features (int d) maxDepth) \<le> nat maxDepth"
proof -
  have "pathNodes (trainDecisionTree rnd p data features (int d) maxDepth)
          \<le> nat (maxDepth - int d)"
    by (rule pathNodes_bound)
  also have "\<dots> \<le> nat maxDepth" by simp
  finally show ?thesis by (simp add: pathNodes_bound train_at_maxDepth)
qed

text \<open>The trees of a forest, trained from depth 0 with \<open>maxDepth\<close> 12, are at most 12 deep.\<close>

lemma forest_depth:
  "list_all (\<lambda>t. pathNodes t \<le> 12) (trainRandomForest rnd idx data features numTrees)"
proof -
  have "pathNodes (trainDecisionTree r [] rows features 0 12) \<le> 12" for r rows
    using pathNodes_bound [of r "[]" rows features 0 12] by simp
  then show ?thesis by (simp add: trainRandomForest_def list_all_iff)
qed

subsection \<open>The feature subset of a node\<close>

lemma floor_sqrt_21: "\<lfloor>sqrt 21\<rfloor> = 4"
proof -
  have "4 \<le> sqrt 21" by (rule real_le_rsqrt) simp
  moreover have "sqrt 21 < 5" by (rule real_less_lsqrt) simp_all
  ultimately show ?thesis by (simp add: floor_eq_iff)
qed

lemma ceiling_sqrt_21: "\<lceil>sqrt 21\<rceil> = 5"
proof -
  have "4 < sqrt 21" by (rule real_less_rsqrt) simp
  moreover have "sqrt 21 \<le> 5" by (rule real_le_lsqrt) simp_all
  ultimately show ?thesis by (simp add: ceiling_eq_iff)
qed

lemma length_expected: "length expectedFeatures = 21"
  by (simp add: expectedFeatures_def)

lemma distinct_expected: "distinct expectedFeatures"
  by (simp add: expectedFeatures_def)

lemma floor_sqrt_le: "nat \<lfloor>sqrt (real n)\<rfloor> \<le> n"
proof -
  have "sqrt (real n) \<le> real n"
    by (metis of_nat_mono real_sqrt_le_iff real_sqrt_abs2 abs_of_nat le_square of_nat_mult)
  then show ?thesis by linarith
qed

lemma numFeatures_floor:
  assumes "features \<noteq> []"
  shows "numFeatures features = nat \<lfloor>sqrt (real (length features))\<rfloor>"
proof -
  have "1 \<le> real (length features)" using assms by (cases features) simp_all
  then have "1 \<le> sqrt (real (length features))" by simp
  then have "1 \<le> \<lfloor>sqrt (real (length features))\<rfloor>" by linarith
  then have "1 \<le> nat \<lfloor>sqrt (real (length features))\<rfloor>" by linarith
  then show ?thesis unfolding numFeatures_def by (rule max_absorb2)
qed

text \<open>
  Claim C3, as the code has it. Where the shuffle returns a rearrangement of a non-empty
  list of distinct features, the selected features are
  \<open>\<lfloor>\<surd>(#features)\<rfloor>\<close> distinct features of the list (\<open>Math.floor\<close>, not a ceiling): 4 of
  the 21 fixed features.
\<close>

theorem selectFeatures_floor_sqrt:
  assumes "mset (rnd p features) = mset features" and "distinct features" and "features \<noteq> []"
  shows "length (selectFeatures rnd p features) = nat \<lfloor>sqrt (real (length features))\<rfloor>
         \<and> distinct (selectFeatures rnd p features)
         \<and> set (selectFeatures rnd p features) \<subseteq> set features
         \<and> (length features = 21 \<longrightarrow> length (selectFeatures rnd p features) = 4)"
proof -
  have len: "length (rnd p features) = length features"
    using assms(1) by (metis size_mset)
  have d: "distinct (rnd p features)"
    using assms(1,2) by (metis mset_eq_imp_distinct_iff)
  have s: "set (rnd p features) = set features"
    using assms(1) by (metis mset_eq_setD)
  have n: "numFeatures features = nat \<lfloor>sqrt (real (length features))\<rfloor>"
    using assms(3) by (rule numFeatures_floor)
  have l: "length (selectFeatures rnd p features) = nat \<lfloor>sqrt (real (length features))\<rfloor>"
    using floor_sqrt_le [of "length features"] by (simp add: selectFeatures_def n len)
  have "distinct (selectFeatures rnd p features)"
    using d by (simp add: selectFeatures_def)
  moreover have "set (selectFeatures rnd p features) \<subseteq> set features"
    using s set_take_subset [of "numFeatures features" "rnd p features"]
    by (simp add: selectFeatures_def)
  moreover have "length features = 21 \<longrightarrow> length (selectFeatures rnd p features) = 4"
    using l floor_sqrt_21 by simp
  ultimately show ?thesis using l by simp
qed


theorem selectFeatures_floor_sqrt_witness:
  "mset (keepOrder [] expectedFeatures) = mset expectedFeatures
   \<and> distinct expectedFeatures \<and> expectedFeatures \<noteq> [] \<and> length expectedFeatures = 21
   \<and> length (selectFeatures keepOrder [] expectedFeatures) = 4
   \<and> distinct (selectFeatures keepOrder [] expectedFeatures)
   \<and> set (selectFeatures keepOrder [] expectedFeatures) \<subseteq> set expectedFeatures"
proof -
  have m: "mset (keepOrder [] expectedFeatures) = mset expectedFeatures"
    by (simp add: keepOrder_def)
  have n: "expectedFeatures \<noteq> []" using length_expected by auto
  show ?thesis
    using selectFeatures_floor_sqrt [of keepOrder "[]" expectedFeatures, OF m distinct_expected n] m n
    by (simp add: length_expected distinct_expected)
qed

text \<open>
  The claim as stated fails on the 21 fixed features: the subset has 4 elements, while
  \<open>\<lceil>\<surd>21\<rceil>\<close> is 5.
\<close>

theorem selectFeatures_not_ceiling:
  "length (selectFeatures keepOrder [] expectedFeatures)
     \<noteq> nat \<lceil>sqrt (real (length expectedFeatures))\<rceil>
   \<and> length (selectFeatures keepOrder [] expectedFeatures) \<noteq> 5"
proof -
  have "numFeatures expectedFeatures = 4"
    by (simp add: numFeatures_def length_expected floor_sqrt_21)
  then have "length (selectFeatures keepOrder [] expectedFeatures) = 4"
    by (simp add: selectFeatures_def keepOrder_def length_expected)
  then show ?thesis by (simp add: length_expected ceiling_sqrt_21)
qed

section \<open>Properties of the forest predictor\<close>

lemma predictTree_range: "wf_tree t \<Longrightarrow> predictTree t sample < 4"
  by (induction t) (auto split: cell.splits option.splits)

lemma votes_counts:
  "list_all wf_tree trees \<Longrightarrow> votes trees sample = map (voteCount trees sample) [0, 1, 2, 3]"
proof (induction trees rule: rev_induct)
  case Nil
  show ?case by (simp add: votes_def voteCount_def)
next
  case (snoc t trees)
  then have ih: "votes trees sample = map (voteCount trees sample) [0, 1, 2, 3]"
    and wf: "wf_tree t" by simp_all
  have step: "votes (trees @ [t]) sample =
      (let cls = predictTree t sample; probs = votes trees sample
       in if cls < 4 then probs[cls := probs ! cls + 1] else probs)"
    by (simp add: votes_def Let_def)
  have "predictTree t sample < 4" using wf by (rule predictTree_range)
  then consider "predictTree t sample = 0" | "predictTree t sample = 1"
    | "predictTree t sample = 2" | "predictTree t sample = 3" by linarith
  then show ?case
    by cases (simp_all add: step ih voteCount_def)
qed

lemma voteCount_total:
  "list_all wf_tree trees \<Longrightarrow>
   voteCount trees sample 0 + voteCount trees sample 1 + voteCount trees sample 2
     + voteCount trees sample 3 = length trees"
proof (induction trees)
  case Nil
  show ?case by (simp add: voteCount_def)
next
  case (Cons t trees)
  then have "predictTree t sample < 4" by (simp add: predictTree_range)
  then consider "predictTree t sample = 0" | "predictTree t sample = 1"
    | "predictTree t sample = 2" | "predictTree t sample = 3" by linarith
  then show ?case using Cons by cases (simp_all add: voteCount_def)
qed

text \<open>
  Claim C5. For a forest of at least one tree whose predictions are regime ids, and any
  row, \<open>predictRF\<close> returns four numbers, none negative, that sum to 1: entry \<open>c\<close> is the
  number of trees voting for class \<open>c\<close> divided by the number of trees. (In exact
  arithmetic; the forests of \<open>trainRandomForest\<close> are of this kind, see \<open>forest_wf\<close>.)
\<close>

theorem predictRF_distribution:
  assumes "trees \<noteq> []" and "list_all wf_tree trees"
  shows "\<exists>ps. predictRF trees sample = map Num ps \<and> length ps = 4
           \<and> list_all (\<lambda>p. 0 \<le> p) ps \<and> sum_list ps = 1
           \<and> ps = map (\<lambda>c. real (voteCount trees sample c) / real (length trees)) [0, 1, 2, 3]"
proof -
  let ?n = "real (length trees)"
  let ?ps = "map (\<lambda>c. real (voteCount trees sample c) / ?n) [0, 1, 2, 3]"
  have n: "?n > 0" using assms(1) by simp
  have "predictRF trees sample = map Num ?ps"
    using assms(1) by (simp add: predictRF_def votes_counts [OF assms(2)])
  moreover have "list_all (\<lambda>p. 0 \<le> p) ?ps" by simp
  moreover have "sum_list ?ps = 1"
  proof -
    have "sum_list ?ps = real (voteCount trees sample 0 + voteCount trees sample 1
        + voteCount trees sample 2 + voteCount trees sample 3) / ?n"
      by (simp add: add_divide_distrib)
    also have "\<dots> = ?n / ?n" by (simp only: voteCount_total [OF assms(2)])
    also have "\<dots> = 1" using n by simp
    finally show ?thesis .
  qed
  ultimately show ?thesis by (intro exI [of _ ?ps]) simp
qed

theorem predictRF_distribution_witness:
  "[Leaf 1, Node None ''f'' 0 (Leaf 2) (Leaf 3), Leaf 1, Leaf 0] \<noteq> []
   \<and> list_all wf_tree [Leaf 1, Node None ''f'' 0 (Leaf 2) (Leaf 3), Leaf 1, Leaf 0]
   \<and> predictRF [Leaf 1, Node None ''f'' 0 (Leaf 2) (Leaf 3), Leaf 1, Leaf 0] (\<lambda>f. Num 1)
       = map Num [1 / 4, 1 / 2, 0, 1 / 4]
   \<and> sum_list [1 / 4, 1 / 2, 0, 1 / 4 :: real] = 1"
  using predictRF_distribution [of "[Leaf 1, Node None ''f'' 0 (Leaf 2) (Leaf 3), Leaf 1, Leaf 0]" "\<lambda>f. Num 1"]
  by (simp add: voteCount_def)

lemma tally_length:
  "length (foldl (\<lambda>counts d. if regime d < 4 then counts[regime d := counts ! regime d + 1]
      else counts) cs data) = length cs"
  by (induction data arbitrary: cs) simp_all

lemma classCounts_length: "length (classCounts data) = 4"
  unfolding classCounts_def by (subst tally_length) simp

lemma indexOf_max4: "indexOf [a, b, c, d] (fold max [a, b, c, d] 0) < 4"
  by (simp add: max_def)

lemma majority_range: "majority data < 4"
proof -
  have "\<exists>a b c d. classCounts data = [a, b, c, d]"
    using classCounts_length [of data] by (auto simp: length_Suc_conv eval_nat_numeral)
  then obtain a b c d where "classCounts data = [a, b, c, d]" by blast
  then show ?thesis using indexOf_max4 [of a b c d] by (simp add: majority_def)
qed

lemma train_wf: "wf_tree (trainDecisionTree rnd p data features depth maxDepth)"
proof (induction rnd p data features depth maxDepth rule: trainDecisionTree.induct)
  case (1 rnd p data features depth maxDepth)
  show ?case
    apply (subst trainDecisionTree.simps)
    using 1 apply (auto simp: Let_def majority_range split: option.splits)
    done
qed

lemma forest_wf: "list_all wf_tree (trainRandomForest rnd idx data features numTrees)"
  by (simp add: trainRandomForest_def list_all_iff train_wf)

section \<open>Properties of the backtest engine\<close>

subsection \<open>The loop\<close>

lemma week_cases:
  "week m k st w =
     (if beforeCutoff (snd w) then st
      else case weekTrade m k w of
             None \<Rightarrow> zeroWeek st (snd w)
           | Some t \<Rightarrow>
               \<lparr>equity = equity st * (1 + weeklyRet t),
                equityCurve = equityCurve st
                  @ [\<lparr>pointDate = snd w, pointEquity = equity st * (1 + weeklyRet t),
                      pointRet = weeklyRet t\<rparr>],
                weeklyReturns = weeklyReturns st @ [weeklyRet t],
                tradesByDate = (tradesByDate st)(snd w \<mapsto> t)\<rparr>)"
  by (simp add: week_def weekTrade_def Let_def split: option.splits)

lemma runWeeks_snoc: "runWeeks m k (ws @ [w]) = week m k (runWeeks m k ws) w"
  by (simp add: runWeeks_def)

lemma compounds_snoc:
  "compounds e (curve @ [pt]) =
     (compounds e curve \<and> pointEquity pt = lastEquity e curve * (1 + pointRet pt))"
  by (induction curve arbitrary: e) (auto simp: lastEquity_def)

lemma runWeeks_curve:
  "map pointDate (equityCurve (runWeeks m k ws)) = filter (\<lambda>d. \<not> beforeCutoff d) (map snd ws)
   \<and> compounds initialCapital (equityCurve (runWeeks m k ws))
   \<and> equity (runWeeks m k ws) = lastEquity initialCapital (equityCurve (runWeeks m k ws))
   \<and> map pointRet (equityCurve (runWeeks m k ws)) = weeklyReturns (runWeeks m k ws)"
proof (induction ws rule: rev_induct)
  case Nil
  show ?case by (simp add: runWeeks_def initialState_def lastEquity_def)
next
  case (snoc w ws)
  show ?case
    using snoc
    by (simp add: runWeeks_snoc week_cases zeroWeek_def compounds_snoc lastEquity_def
        split: option.splits)
qed

lemma runWeeks_points:
  "map (\<lambda>pt. (pointDate pt, pointRet pt)) (equityCurve (runWeeks m k ws))
     = map (\<lambda>w. (snd w, weekRet m k w)) (filter (\<lambda>w. \<not> beforeCutoff (snd w)) ws)"
proof (induction ws rule: rev_induct)
  case Nil
  show ?case by (simp add: runWeeks_def initialState_def)
next
  case (snoc w ws)
  then show ?case
    by (simp add: runWeeks_snoc week_cases zeroWeek_def weekRet_def split: option.splits)
qed

lemma runWeeks_trades_none:
  "d \<notin> snd ` set ws \<Longrightarrow> tradesByDate (runWeeks m k ws) d = None"
proof (induction ws rule: rev_induct)
  case Nil
  show ?case by (simp add: runWeeks_def initialState_def)
next
  case (snoc w ws)
  then show ?case
    by (simp add: runWeeks_snoc week_cases zeroWeek_def split: option.splits)
qed

lemma runWeeks_trades:
  "distinct (map snd ws) \<Longrightarrow> w \<in> set ws \<Longrightarrow>
   tradesByDate (runWeeks m k ws) (snd w) = (if beforeCutoff (snd w) then None else weekTrade m k w)"
proof (induction ws rule: rev_induct)
  case Nil
  then show ?case by simp
next
  case (snoc v ws)
  then have new: "snd v \<notin> snd ` set ws" and d: "distinct (map snd ws)" by simp_all
  show ?case
  proof (cases "w \<in> set ws")
    case True
    then have "snd w \<noteq> snd v" using new by (metis imageI)
    moreover have "tradesByDate (runWeeks m k ws) (snd w)
        = (if beforeCutoff (snd w) then None else weekTrade m k w)"
      using snoc.IH [OF d True] .
    ultimately show ?thesis
      by (simp add: runWeeks_snoc week_cases zeroWeek_def split: option.splits)
  next
    case False
    then have "w = v" using snoc.prems(2) by simp
    then show ?thesis
      using runWeeks_trades_none [OF new, of m k]
      by (simp add: runWeeks_snoc week_cases zeroWeek_def split: option.splits)
  qed
qed

lemma allDates_distinct: "distinct (allDates m s k)"
  by (simp add: allDates_def)

lemma allDates_sorted: "sorted (allDates m s k)"
  by (simp add: allDates_def)

lemma allDates_set: "set (allDates m s k) = sharedDates m s k"
  by (auto simp: allDates_def sharedDates_def)

lemma allDates_length: "length (allDates m s k) = card (sharedDates m s k)"
  using allDates_distinct [of m s k] allDates_set [of m s k]
  by (metis distinct_card)

lemma snd_zip_tl: "map snd (zip xs (tl xs)) = tl xs"
  by (rule nth_equalityI) (auto simp: nth_tl)

lemma compounds_nth:
  "compounds e curve \<Longrightarrow> i < length curve \<Longrightarrow>
   pointEquity (curve ! i)
     = (if i = 0 then e else pointEquity (curve ! (i - 1))) * (1 + pointRet (curve ! i))"
proof (induction curve arbitrary: e i)
  case Nil
  then show ?case by simp
next
  case (Cons pt pts)
  show ?case
  proof (cases i)
    case 0
    with Cons.prems show ?thesis by simp
  next
    case (Suc j)
    have c: "compounds (pointEquity pt) pts"
      using Cons.prems(1) unfolding compounds.simps by (rule conjunct2)
    have j: "j < length pts" using Cons.prems(2) Suc by simp
    show ?thesis using Cons.IH [OF c j] Suc by (cases j) simp_all
  qed
qed

lemma weeks_nth:
  assumes "Suc i < length xs"
  shows "(xs ! i, xs ! Suc i) \<in> set (zip xs (tl xs))"
proof -
  have "i < length (zip xs (tl xs))" using assms by simp
  moreover have "zip xs (tl xs) ! i = (xs ! i, xs ! Suc i)"
    using assms by (simp add: nth_tl)
  ultimately show ?thesis by (metis nth_mem)
qed

lemma runBacktest_Inr:
  assumes "runBacktest m s k = Inr res"
  shows "res = runWeeks m k (zip (allDates m s k) (tl (allDates m s k)))"
    and "2 \<le> length (allDates m s k)"
    and "equityCurve res \<noteq> []"
  using assms by (auto simp: runBacktest_def Let_def runWeeks_def split: if_splits)

lemma weeks_distinct: "distinct (map snd (zip (allDates m s k) (tl (allDates m s k))))"
  by (simp add: snd_zip_tl distinct_tl allDates_distinct)

lemma curve_dates:
  "map pointDate (equityCurve (runWeeks m k ws)) = filter (\<lambda>d. \<not> beforeCutoff d) (map snd ws)"
  using runWeeks_curve [of m k ws] by simp

lemma curve_point_week:
  assumes "pt \<in> set (equityCurve (runWeeks m k ws))"
  shows "\<exists>w\<in>set ws. \<not> beforeCutoff (snd w) \<and> pointDate pt = snd w \<and> pointRet pt = weekRet m k w"
proof -
  have "(pointDate pt, pointRet pt)
      \<in> set (map (\<lambda>pt. (pointDate pt, pointRet pt)) (equityCurve (runWeeks m k ws)))"
    using assms by (metis (no_types, lifting) image_eqI list.set_map)
  then have "(pointDate pt, pointRet pt)
      \<in> set (map (\<lambda>w. (snd w, weekRet m k w)) (filter (\<lambda>w. \<not> beforeCutoff (snd w)) ws))"
    by (simp only: runWeeks_points)
  then show ?thesis by auto
qed

lemma trade_week:
  assumes "distinct (map snd ws)" and "tradesByDate (runWeeks m k ws) d = Some t"
  shows "\<exists>w\<in>set ws. snd w = d \<and> \<not> beforeCutoff d \<and> weekTrade m k w = Some t"
proof -
  have "d \<in> snd ` set ws" using assms(2) runWeeks_trades_none [of d ws m k] by force
  then obtain w where w: "w \<in> set ws" "snd w = d" by auto
  from runWeeks_trades [OF assms(1) w(1), of m k] assms(2) w(2)
  have "\<not> beforeCutoff d \<and> weekTrade m k w = Some t" by (auto split: if_splits)
  with w show ?thesis by blast
qed

subsection \<open>A traded week\<close>

lemma foldl_pnl: "foldl (\<lambda>acc p. acc + pnl p) a ps = a + sum_list (map pnl ps)"
  by (induction ps arbitrary: a) simp_all

lemma sectorCandidates_ret:
  "c \<in> set (sectorCandidates key rankStocks todayRets sec) \<Longrightarrow>
   todayRets (ticker c) = Some (stockRet c)"
  by (auto simp: sectorCandidates_def Let_def split: option.splits)

lemma longCandidates_ret:
  "c \<in> set (longCandidates cfg rankStocks todayRets) \<Longrightarrow> todayRets (ticker c) = Some (stockRet c)"
  by (auto simp: longCandidates_def dest: sectorCandidates_ret)

lemma shortCandidates_ret:
  "c \<in> set (shortCandidates cfg rankStocks todayRets) \<Longrightarrow> todayRets (ticker c) = Some (stockRet c)"
  by (auto simp: shortCandidates_def dest: sectorCandidates_ret)

lemma sum_const_weight: "sum_list (map (\<lambda>c. a) cs) = real (length cs) * (a::real)"
  by (induction cs) (simp_all add: algebra_simps)

lemma longPositions_facts:
  "length (longPositions lw cs) = length cs"
  "p \<in> set (longPositions lw cs) \<Longrightarrow> weight p = lw \<and> pnl p = lw * stockRet p"
  "p \<in> set (longPositions lw cs) \<Longrightarrow>
     \<exists>c\<in>set cs. ticker p = ticker c \<and> stockRet p = stockRet c \<and> sector p = sector c"
  "sum_list (map weight (longPositions lw cs)) = real (length cs) * lw"
  "sum_list (map pnl (longPositions lw cs)) = sum_list (map (\<lambda>p. weight p * stockRet p) (longPositions lw cs))"
  by (auto simp: longPositions_def comp_def sum_const_weight)

lemma shortPositions_facts:
  "length (shortPositions sw cs) = length cs"
  "p \<in> set (shortPositions sw cs) \<Longrightarrow> weight p = - sw \<and> pnl p = (- sw) * stockRet p"
  "p \<in> set (shortPositions sw cs) \<Longrightarrow>
     \<exists>c\<in>set cs. ticker p = ticker c \<and> stockRet p = stockRet c \<and> sector p = sector c"
  "sum_list (map weight (shortPositions sw cs)) = real (length cs) * (- sw)"
  "sum_list (map pnl (shortPositions sw cs)) = sum_list (map (\<lambda>p. weight p * stockRet p) (shortPositions sw cs))"
  by (auto simp: shortPositions_def comp_def sum_const_weight)

lemma weekTrade_Some:
  assumes "weekTrade m k w = Some t"
  shows "tradeDay t = snd w"
    and "regimeByDate m (snd w) = Some (tradeRegime t)"
    and "1 \<le> length (longs t) + length (shorts t)"
    and "p \<in> set (longs t) \<Longrightarrow> weight p = 0.5 / real (length (longs t)) \<and> pnl p = weight p * stockRet p
           \<and> stockRetByDate k (snd w) (ticker p) = Some (stockRet p)"
    and "p \<in> set (shorts t) \<Longrightarrow> weight p = - 0.5 / real (length (shorts t)) \<and> pnl p = weight p * stockRet p
           \<and> stockRetByDate k (snd w) (ticker p) = Some (stockRet p)"
    and "\<bar>sum_list (map weight (longs t))\<bar> = (if longs t = [] then 0 else 0.5)"
    and "\<bar>sum_list (map weight (shorts t))\<bar> = (if shorts t = [] then 0 else 0.5)"
    and "weeklyRet t = sum_list (map (\<lambda>p. weight p * stockRet p) (longs t @ shorts t))"
proof -
  from assms obtain rg cfg where rg: "regimeByDate m (snd w) = Some rg"
    and cfg: "regimeSectorConfig rg = Some cfg"
    by (auto simp: weekTrade_def split: option.splits)
  let ?lc = "longCandidates cfg (stocksByDate k (fst w)) (stockRetByDate k (snd w))"
  let ?sc = "shortCandidates cfg (stocksByDate k (fst w)) (stockRetByDate k (snd w))"
  let ?ls = "longPositions (longWeight (length ?lc)) ?lc"
  let ?ss = "shortPositions (shortWeight (length ?sc)) ?sc"
  from assms rg cfg have n: "length ?lc + length ?sc \<noteq> 0"
    and t: "t = \<lparr>tradeDay = snd w, tradeRegime = rg,
                 weeklyRet = foldl (\<lambda>acc p. acc + pnl p) 0 (?ls @ ?ss),
                 longs = ?ls, shorts = ?ss\<rparr>"
    by (auto simp: weekTrade_def Let_def split: if_splits)
  have l: "longs t = ?ls" and s: "shorts t = ?ss" using t by simp_all
  show "tradeDay t = snd w" using t by simp
  show "regimeByDate m (snd w) = Some (tradeRegime t)" using t rg by simp
  have "1 \<le> length ?lc + length ?sc" using n by linarith
  then show "1 \<le> length (longs t) + length (shorts t)"
    by (simp only: l s longPositions_facts(1) shortPositions_facts(1))
  show "weight p = 0.5 / real (length (longs t)) \<and> pnl p = weight p * stockRet p
           \<and> stockRetByDate k (snd w) (ticker p) = Some (stockRet p)" if "p \<in> set (longs t)"
  proof -
    from that have p: "p \<in> set ?ls" by (simp add: l)
    then have "?lc \<noteq> []" by (auto simp: longPositions_def)
    then have w: "longWeight (length ?lc) = 0.5 / real (length ?lc)" by (simp add: longWeight_def)
    from longPositions_facts(3) [OF p] obtain c where "c \<in> set ?lc" "ticker p = ticker c"
      "stockRet p = stockRet c" by blast
    then have "stockRetByDate k (snd w) (ticker p) = Some (stockRet p)"
      using longCandidates_ret [of c] by simp
    then show ?thesis
      using longPositions_facts(2) [OF p] w by (simp add: l longPositions_facts(1))
  qed
  show "weight p = - 0.5 / real (length (shorts t)) \<and> pnl p = weight p * stockRet p
           \<and> stockRetByDate k (snd w) (ticker p) = Some (stockRet p)" if "p \<in> set (shorts t)"
  proof -
    from that have p: "p \<in> set ?ss" by (simp add: s)
    then have "?sc \<noteq> []" by (auto simp: shortPositions_def)
    then have w: "shortWeight (length ?sc) = 0.5 / real (length ?sc)" by (simp add: shortWeight_def)
    from shortPositions_facts(3) [OF p] obtain c where "c \<in> set ?sc" "ticker p = ticker c"
      "stockRet p = stockRet c" by blast
    then have "stockRetByDate k (snd w) (ticker p) = Some (stockRet p)"
      using shortCandidates_ret [of c] by simp
    then show ?thesis
      using shortPositions_facts(2) [OF p] w by (simp add: s shortPositions_facts(1))
  qed
  show "\<bar>sum_list (map weight (longs t))\<bar> = (if longs t = [] then 0 else 0.5)"
    by (simp add: l longPositions_facts(4) longWeight_def) (simp add: longPositions_def)
  show "\<bar>sum_list (map weight (shorts t))\<bar> = (if shorts t = [] then 0 else 0.5)"
    by (simp add: s shortPositions_facts(4) shortWeight_def) (simp add: shortPositions_def)
  show "weeklyRet t = sum_list (map (\<lambda>p. weight p * stockRet p) (longs t @ shorts t))"
    by (simp add: t foldl_pnl longPositions_facts(5) shortPositions_facts(5))
qed

subsection \<open>The backtest on the concrete tables\<close>

lemma demo_dates:
  "allDates demo_macro demo_sector demo_stock = [''2015-01-02'', ''2015-01-09'', ''2015-01-16'']"
  by (simp add: allDates_def demo_macro_def demo_sector_def demo_stock_def)

lemma demo_regimes:
  "regimeByDate demo_macro ''2015-01-09'' = Some 2" "regimeByDate demo_macro ''2015-01-16'' = Some 0"
  by (simp_all add: regimeByDate_def demo_macro_def)

lemma demo_stocks:
  "stocksByDate demo_stock ''2015-01-02'' =
     [\<lparr>stockDateKey = ''2015-01-02'', stock_ticker = ''A'', sector_etf = ''XLE US Equity'', ret = 0.03\<rparr>,
      \<lparr>stockDateKey = ''2015-01-02'', stock_ticker = ''B'', sector_etf = ''XLE US Equity'', ret = 0.01\<rparr>,
      \<lparr>stockDateKey = ''2015-01-02'', stock_ticker = ''C'', sector_etf = ''XLF US Equity'', ret = - 0.02\<rparr>]"
  "stocksByDate demo_stock ''2015-01-09'' =
     [\<lparr>stockDateKey = ''2015-01-09'', stock_ticker = ''A'', sector_etf = ''XLE US Equity'', ret = 0.05\<rparr>,
      \<lparr>stockDateKey = ''2015-01-09'', stock_ticker = ''B'', sector_etf = ''XLE US Equity'', ret = - 0.02\<rparr>,
      \<lparr>stockDateKey = ''2015-01-09'', stock_ticker = ''C'', sector_etf = ''XLF US Equity'', ret = 0.01\<rparr>]"
  "stocksByDate demo_stock ''2015-01-16'' =
     [\<lparr>stockDateKey = ''2015-01-16'', stock_ticker = ''A'', sector_etf = ''XLE US Equity'', ret = 0.01\<rparr>]"
  by (simp_all add: stocksByDate_def demo_stock_def)

lemma demo_week2:
  "weekTrade demo_macro demo_stock (''2015-01-02'', ''2015-01-09'') =
     Some \<lparr>tradeDay = ''2015-01-09'', tradeRegime = 2, weeklyRet = 0.0025,
           longs = [\<lparr>ticker = ''A'', sector = ''XLE US Equity'', stockRet = 0.05, weight = 0.25, pnl = 0.0125\<rparr>,
                    \<lparr>ticker = ''B'', sector = ''XLE US Equity'', stockRet = - 0.02, weight = 0.25, pnl = - 0.005\<rparr>],
           shorts = [\<lparr>ticker = ''C'', sector = ''XLF US Equity'', stockRet = 0.01, weight = - 0.5, pnl = - 0.005\<rparr>]\<rparr>"
  by (simp add: weekTrade_def demo_regimes demo_stocks regimeSectorConfig_def longCandidates_def
      shortCandidates_def sectorCandidates_def stockRetByDate_def longPositions_def
      shortPositions_def longWeight_def shortWeight_def Let_def)

lemma demo_week3:
  "weekTrade demo_macro demo_stock (''2015-01-09'', ''2015-01-16'') = None"
  by (simp add: weekTrade_def demo_regimes demo_stocks regimeSectorConfig_def longCandidates_def
      shortCandidates_def sectorCandidates_def stockRetByDate_def longPositions_def
      shortPositions_def longWeight_def shortWeight_def Let_def)

lemma demo_cutoff: "\<not> beforeCutoff ''2015-01-09''" "\<not> beforeCutoff ''2015-01-16''"
  by (simp_all add: beforeCutoff_def)

lemma demo_curve:
  "equityCurve demo_result =
     [\<lparr>pointDate = ''2015-01-09'', pointEquity = 1002500, pointRet = 0.0025\<rparr>,
      \<lparr>pointDate = ''2015-01-16'', pointEquity = 1002500, pointRet = 0\<rparr>]"
  by (simp add: demo_result_def demo_dates runWeeks_def week_cases demo_week2 demo_week3
      demo_cutoff zeroWeek_def initialState_def initialCapital_def)

lemma demo_trades:
  "tradesByDate demo_result ''2015-01-09'' = weekTrade demo_macro demo_stock (''2015-01-02'', ''2015-01-09'')"
  "tradesByDate demo_result ''2015-01-16'' = None"
  by (simp_all add: demo_result_def demo_dates runWeeks_def week_cases demo_week2 demo_week3
      demo_cutoff zeroWeek_def initialState_def initialCapital_def)

lemma demo_run: "runBacktest demo_macro demo_sector demo_stock = Inr demo_result"
  using demo_curve by (simp add: runBacktest_def demo_dates Let_def demo_result_def)

lemma lone_shared: "sharedDates demo_macro demo_sector lone_stock = {''2015-01-09''}"
  by (auto simp: sharedDates_def demo_macro_def demo_sector_def lone_stock_def)

subsection \<open>Weights and weekly return\<close>

text \<open>
  Claim C6. In a finished backtest, the trade stored for a date has at least one position;
  each long position has weight \<open>0.5 / nL\<close> and each short position \<open>- 0.5 / nS\<close>; the
  weights of a book add up to 0.5 in absolute value when the book is populated (and to 0
  when it is empty, whatever the other book holds: no mass moves across); the return of
  every position is the trade date's return of its ticker; and the weekly return is the
  sum of weight times return over the positions of both books.
\<close>

theorem runBacktest_book_weights:
  assumes "runBacktest m s k = Inr res" and "tradesByDate res d = Some t"
  shows "1 \<le> length (longs t) + length (shorts t)
     \<and> (\<forall>p\<in>set (longs t). weight p = 0.5 / real (length (longs t))
            \<and> pnl p = weight p * stockRet p
            \<and> stockRetByDate k d (ticker p) = Some (stockRet p))
     \<and> (\<forall>p\<in>set (shorts t). weight p = - 0.5 / real (length (shorts t))
            \<and> pnl p = weight p * stockRet p
            \<and> stockRetByDate k d (ticker p) = Some (stockRet p))
     \<and> \<bar>sum_list (map weight (longs t))\<bar> = (if longs t = [] then 0 else 0.5)
     \<and> \<bar>sum_list (map weight (shorts t))\<bar> = (if shorts t = [] then 0 else 0.5)
     \<and> weeklyRet t = sum_list (map (\<lambda>p. weight p * stockRet p) (longs t @ shorts t))"
proof -
  let ?ws = "zip (allDates m s k) (tl (allDates m s k))"
  have res: "res = runWeeks m k ?ws" using assms(1) by (rule runBacktest_Inr)
  have "\<exists>w\<in>set ?ws. snd w = d \<and> \<not> beforeCutoff d \<and> weekTrade m k w = Some t"
    by (rule trade_week [OF weeks_distinct]) (use assms(2) res in simp)
  then obtain w where w: "snd w = d" "weekTrade m k w = Some t" by auto
  note f = weekTrade_Some [OF w(2), unfolded w(1)]
  show ?thesis using f(3) f(4) f(5) f(6) f(7) f(8) by blast
qed

theorem runBacktest_book_weights_witness:
  "runBacktest demo_macro demo_sector demo_stock = Inr demo_result
   \<and> tradesByDate demo_result ''2015-01-09'' = Some demo_trade
   \<and> map weight (longs demo_trade) = [0.5 / 2, 0.5 / 2]
   \<and> map weight (shorts demo_trade) = [- 0.5 / 1]
   \<and> \<bar>sum_list (map weight (longs demo_trade))\<bar> = 0.5
   \<and> \<bar>sum_list (map weight (shorts demo_trade))\<bar> = 0.5
   \<and> weeklyRet demo_trade
       = sum_list (map (\<lambda>p. weight p * stockRet p) (longs demo_trade @ shorts demo_trade))"
proof -
  have t: "tradesByDate demo_result ''2015-01-09'' = Some demo_trade"
    by (simp add: demo_trades demo_week2 demo_trade_def)
  have l: "longs demo_trade \<noteq> []" and s: "shorts demo_trade \<noteq> []"
    by (simp_all add: demo_trade_def)
  have w: "map weight (longs demo_trade) = [0.5 / 2, 0.5 / 2]"
    "map weight (shorts demo_trade) = [- 0.5 / 1]"
    by (simp_all add: demo_trade_def)
  show ?thesis
    using runBacktest_book_weights [OF demo_run t] l s w demo_run t by simp
qed

subsection \<open>The equity curve\<close>

text \<open>
  Claim C7. In a finished backtest the dates of the equity curve are strictly increasing
  and are the common dates after the first that are not before the cutoff, one point
  each; the equity of every point is the previous equity (the initial capital for the
  first point) times one plus the point's return, so a zero return leaves it unchanged;
  and the first common date is not a date of the curve.
\<close>

theorem runBacktest_equity_curve:
  assumes "runBacktest m s k = Inr res"
  shows "sorted_wrt (<) (map pointDate (equityCurve res))
     \<and> map pointDate (equityCurve res)
         = filter (\<lambda>d. \<not> beforeCutoff d) (tl (allDates m s k))
     \<and> (\<forall>i<length (equityCurve res).
           pointEquity (equityCurve res ! i)
             = (if i = 0 then initialCapital else pointEquity (equityCurve res ! (i - 1)))
               * (1 + pointRet (equityCurve res ! i)))
     \<and> (\<forall>i<length (equityCurve res).
           pointRet (equityCurve res ! i) = 0 \<longrightarrow>
           pointEquity (equityCurve res ! i)
             = (if i = 0 then initialCapital else pointEquity (equityCurve res ! (i - 1))))
     \<and> hd (allDates m s k) \<notin> set (map pointDate (equityCurve res))
     \<and> map pointRet (equityCurve res) = weeklyReturns res
     \<and> equity res = pointEquity (last (equityCurve res))"
proof -
  let ?dates = "allDates m s k"
  let ?ws = "zip ?dates (tl ?dates)"
  have res: "res = runWeeks m k ?ws" and len: "2 \<le> length ?dates" and ne: "equityCurve res \<noteq> []"
    using assms by (rule runBacktest_Inr)+
  note c = runWeeks_curve [of m k ?ws, folded res]
  have dates: "map pointDate (equityCurve res) = filter (\<lambda>d. \<not> beforeCutoff d) (tl ?dates)"
    using c by (simp add: snd_zip_tl)
  have "sorted (tl ?dates)" "distinct (tl ?dates)"
    by (simp_all add: sorted_tl distinct_tl allDates_sorted allDates_distinct)
  then have "sorted_wrt (<) (tl ?dates)" by (simp add: strict_sorted_iff)
  then have "sorted_wrt (<) (filter (\<lambda>d. \<not> beforeCutoff d) (tl ?dates))"
    by (rule sorted_wrt_filter)
  then have inc: "sorted_wrt (<) (map pointDate (equityCurve res))" by (simp only: dates)
  have step: "\<forall>i<length (equityCurve res).
           pointEquity (equityCurve res ! i)
             = (if i = 0 then initialCapital else pointEquity (equityCurve res ! (i - 1)))
               * (1 + pointRet (equityCurve res ! i))"
    using c compounds_nth [of initialCapital "equityCurve res"] by blast
  then have zero: "\<forall>i<length (equityCurve res).
           pointRet (equityCurve res ! i) = 0 \<longrightarrow>
           pointEquity (equityCurve res ! i)
             = (if i = 0 then initialCapital else pointEquity (equityCurve res ! (i - 1)))"
    by simp
  have "?dates \<noteq> []" using len by auto
  then have "?dates = hd ?dates # tl ?dates" by simp
  then have "hd ?dates \<notin> set (tl ?dates)"
    using allDates_distinct [of m s k] by (metis distinct.simps(2))
  then have first: "hd ?dates \<notin> set (map pointDate (equityCurve res))"
    by (simp add: dates)
  have fin: "equity res = pointEquity (last (equityCurve res))"
    using c ne by (simp add: lastEquity_def)
  show ?thesis using inc dates step zero first fin c by blast
qed

theorem runBacktest_equity_curve_witness:
  "runBacktest demo_macro demo_sector demo_stock = Inr demo_result
   \<and> map pointDate (equityCurve demo_result) = [''2015-01-09'', ''2015-01-16'']
   \<and> sorted_wrt (<) (map pointDate (equityCurve demo_result))
   \<and> pointEquity (equityCurve demo_result ! 0)
       = initialCapital * (1 + pointRet (equityCurve demo_result ! 0))
   \<and> pointRet (equityCurve demo_result ! 1) = 0
   \<and> pointEquity (equityCurve demo_result ! 1) = pointEquity (equityCurve demo_result ! 0)
   \<and> hd (allDates demo_macro demo_sector demo_stock) = ''2015-01-02''
   \<and> ''2015-01-02'' \<notin> set (map pointDate (equityCurve demo_result))"
  using runBacktest_equity_curve [OF demo_run] demo_run
  by (simp add: demo_curve demo_dates initialCapital_def)

subsection \<open>Too few common dates\<close>

text \<open>
  Claim C8. With fewer than two dates shared by the three tables, \<open>runBacktest\<close> fails with
  \<open>NoOverlappingDates\<close>: no week is simulated and there is no curve.
\<close>

theorem runBacktest_no_overlap:
  "card (sharedDates m s k) < 2 \<Longrightarrow> runBacktest m s k = Inl NoOverlappingDates"
  by (simp add: runBacktest_def allDates_length Let_def)

theorem runBacktest_no_overlap_witness:
  "card (sharedDates demo_macro demo_sector lone_stock) < 2
   \<and> runBacktest demo_macro demo_sector lone_stock = Inl NoOverlappingDates"
proof -
  have c: "card (sharedDates demo_macro demo_sector lone_stock) < 2"
    by (simp add: lone_shared)
  show ?thesis using runBacktest_no_overlap [OF c] c by simp
qed

subsection \<open>Trade records\<close>

text \<open>
  Claim C9, as the code has it. The trades are keyed by date, and the dates of the curve
  are distinct. A week of the curve has a trade record exactly when its regime has a
  configuration and at least one candidate survives: the record carries the week's date,
  regime, return and positions. A zero-return week (no configuration, or no candidate)
  has a point in the curve with return 0 and no trade record.
\<close>

theorem runBacktest_trade_records:
  assumes "runBacktest m s k = Inr res"
  shows "(\<forall>pt\<in>set (equityCurve res).
            case tradesByDate res (pointDate pt) of
              None \<Rightarrow> pointRet pt = 0
            | Some t \<Rightarrow> tradeDay t = pointDate pt \<and> weeklyRet t = pointRet pt
                 \<and> regimeByDate m (pointDate pt) = Some (tradeRegime t)
                 \<and> 1 \<le> length (longs t) + length (shorts t))
     \<and> dom (tradesByDate res) \<subseteq> pointDate ` set (equityCurve res)
     \<and> distinct (map pointDate (equityCurve res))
     \<and> (\<forall>i. Suc i < length (allDates m s k) \<and> \<not> beforeCutoff (allDates m s k ! Suc i) \<longrightarrow>
            tradesByDate res (allDates m s k ! Suc i)
              = weekTrade m k (allDates m s k ! i, allDates m s k ! Suc i))"
proof -
  let ?dates = "allDates m s k"
  let ?ws = "zip ?dates (tl ?dates)"
  have res: "res = runWeeks m k ?ws" using assms by (rule runBacktest_Inr)
  have dist: "distinct (map snd ?ws)" by (rule weeks_distinct)
  have pts: "case tradesByDate res (pointDate pt) of
              None \<Rightarrow> pointRet pt = 0
            | Some t \<Rightarrow> tradeDay t = pointDate pt \<and> weeklyRet t = pointRet pt
                 \<and> regimeByDate m (pointDate pt) = Some (tradeRegime t)
                 \<and> 1 \<le> length (longs t) + length (shorts t)"
    if "pt \<in> set (equityCurve res)" for pt
  proof -
    from curve_point_week [of pt m k ?ws] that res
    obtain w where w: "w \<in> set ?ws" "\<not> beforeCutoff (snd w)" "pointDate pt = snd w"
      "pointRet pt = weekRet m k w" by auto
    have tr: "tradesByDate res (pointDate pt) = weekTrade m k w"
      using runWeeks_trades [OF dist w(1), of m k] w(2,3) res by simp
    show ?thesis
    proof (cases "weekTrade m k w")
      case None
      then show ?thesis using tr w(4) by (simp add: weekRet_def)
    next
      case (Some t)
      then show ?thesis
        using tr w(3,4) weekTrade_Some(1,2,3) [OF Some] by (simp add: weekRet_def)
    qed
  qed
  have dom: "dom (tradesByDate res) \<subseteq> pointDate ` set (equityCurve res)"
  proof
    fix d assume "d \<in> dom (tradesByDate res)"
    then obtain t where "tradesByDate res d = Some t" by auto
    then obtain w where "w \<in> set ?ws" "snd w = d" "\<not> beforeCutoff d"
      using trade_week [OF dist, of m k d t] res by auto
    then have "d \<in> set (filter (\<lambda>d. \<not> beforeCutoff d) (map snd ?ws))" by force
    then have "d \<in> set (map pointDate (equityCurve res))"
      by (simp only: res curve_dates)
    then show "d \<in> pointDate ` set (equityCurve res)" by simp
  qed
  have one: "distinct (map pointDate (equityCurve res))"
    using dist by (simp only: res curve_dates distinct_filter)
  have weeks: "tradesByDate res (?dates ! Suc i) = weekTrade m k (?dates ! i, ?dates ! Suc i)"
    if "Suc i < length ?dates" "\<not> beforeCutoff (?dates ! Suc i)" for i
    using runWeeks_trades [OF dist weeks_nth [OF that(1)], of m k] that(2) res by simp
  show ?thesis using pts dom one weeks by blast
qed

theorem runBacktest_trade_records_witness:
  "runBacktest demo_macro demo_sector demo_stock = Inr demo_result
   \<and> map pointDate (equityCurve demo_result) = [''2015-01-09'', ''2015-01-16'']
   \<and> tradesByDate demo_result ''2015-01-09'' = Some demo_trade
   \<and> weeklyRet demo_trade = pointRet (equityCurve demo_result ! 0)
   \<and> tradesByDate demo_result ''2015-01-16'' = None
   \<and> pointRet (equityCurve demo_result ! 1) = 0
   \<and> dom (tradesByDate demo_result) \<subseteq> {''2015-01-09'', ''2015-01-16''}"
proof -
  have t: "tradesByDate demo_result ''2015-01-09'' = Some demo_trade"
    by (simp add: demo_trades demo_week2 demo_trade_def)
  show ?thesis
    using runBacktest_trade_records [OF demo_run] demo_run t
    by (simp add: demo_curve demo_trades(2) demo_trade_def)
qed

text \<open>
  The claim as stated fails on the concrete tables: the week of 2015-01-16 is in the
  equity curve, with no surviving candidate, and no trade is stored for it.
\<close>

theorem runBacktest_zero_week_no_record:
  "runBacktest demo_macro demo_sector demo_stock = Inr demo_result
   \<and> ''2015-01-16'' \<in> set (map pointDate (equityCurve demo_result))
   \<and> tradesByDate demo_result ''2015-01-16'' = None"
  by (simp add: demo_run demo_curve demo_trades(2))

end
